theory Spec2Isabelle
  imports Complex_Main "HOL-Library.Monad_Syntax"
begin

section \<open>COVID-19 incidence widget: numbers and symbols\<close>

text \<open>
  JavaScript numbers are the values of IEEE 754 binary64. A finite double is
  represented by the rational it denotes (\<open>Num\<close>); the three values that are not
  finite are separate constructors. The sign of zero is not kept: nothing in the
  widget tells the two zeros apart.
\<close>

datatype number = NaN | NegInf | Num rat | PosInf

text \<open>
  Rounding of a rational to the nearest double, ties to the even significand.
  \<open>ilog2 n\<close> is the position of the leading bit of a positive integer, \<open>binade r\<close>
  the exponent \<open>e\<close> with \<open>2 ^ e \<le> r < 2 ^ (e + 1)\<close> of a positive rational. A
  double has 53 significant bits, so its last place is worth \<open>2 ^ (e - 52)\<close>,
  and \<open>2 ^ -1074\<close> below the normal range; a magnitude that rounds to \<open>2 ^ 1024\<close>
  or more is an infinity.
\<close>

function ilog2 :: "int \<Rightarrow> int" where
  "ilog2 n = (if n < 2 then 0 else 1 + ilog2 (n div 2))"
  by auto
termination
  by (relation "measure nat") auto

declare ilog2.simps [simp del]

definition pow2 :: "int \<Rightarrow> rat" where
  "pow2 e = (if 0 \<le> e then 2 ^ nat e else 1 / 2 ^ nat (- e))"

definition binade :: "rat \<Rightarrow> int" where
  "binade r =
     (case quotient_of r of
        (a, b) \<Rightarrow>
          (let d = ilog2 a - ilog2 b
           in if pow2 d \<le> r then d else d - 1))"

definition roundHalfEven :: "rat \<Rightarrow> int" where
  "roundHalfEven q =
     (let f = \<lfloor>q\<rfloor>; frac = q - of_int f
      in if frac < 1 / 2 then f
         else if 1 / 2 < frac then f + 1
         else if even f then f else f + 1)"

definition roundMagnitude :: "rat \<Rightarrow> rat" where
  "roundMagnitude r =
     (let ulp = pow2 (max (binade r) (- 1022) - 52)
      in of_int (roundHalfEven (r / ulp)) * ulp)"

definition round64 :: "rat \<Rightarrow> number" where
  "round64 r =
     (if r = 0 then Num 0
      else if 0 < r then
        (if roundMagnitude r < 2 ^ 1024 then Num (roundMagnitude r) else PosInf)
      else
        (if roundMagnitude (- r) < 2 ^ 1024 then Num (- roundMagnitude (- r)) else NegInf))"

text \<open>The binary \<open>-\<close> of JavaScript on numbers: the exact difference, rounded.\<close>

fun js_minus :: "number \<Rightarrow> number \<Rightarrow> number" where
  "js_minus (Num a) (Num b) = round64 (a - b)"
| "js_minus NaN _ = NaN"
| "js_minus _ NaN = NaN"
| "js_minus PosInf PosInf = NaN"
| "js_minus NegInf NegInf = NaN"
| "js_minus PosInf _ = PosInf"
| "js_minus NegInf _ = NegInf"
| "js_minus (Num a) PosInf = NegInf"
| "js_minus (Num a) NegInf = PosInf"

text \<open>The unary \<open>-\<close>.\<close>

fun js_neg :: "number \<Rightarrow> number" where
  "js_neg (Num a) = Num (- a)"
| "js_neg NaN = NaN"
| "js_neg PosInf = NegInf"
| "js_neg NegInf = PosInf"

text \<open>\<open>a >= b\<close> and \<open>a <= b\<close>: false as soon as one side is \<open>NaN\<close>.\<close>

fun js_le :: "number \<Rightarrow> number \<Rightarrow> bool" where
  "js_le (Num a) (Num b) = (a \<le> b)"
| "js_le NaN _ = False"
| "js_le _ NaN = False"
| "js_le NegInf _ = True"
| "js_le _ PosInf = True"
| "js_le PosInf _ = False"
| "js_le _ NegInf = False"

definition js_ge :: "number \<Rightarrow> number \<Rightarrow> bool" where
  "js_ge a b = js_le b a"

text \<open>An SF symbol is identified by the name it was looked up with.\<close>

datatype SFSymbol = named string

text \<open>The names the specification gives to the trend symbols.\<close>

abbreviation StrongUp :: SFSymbol where "StrongUp \<equiv> named ''arrow.up.circle''"
abbreviation Up :: SFSymbol where "Up \<equiv> named ''arrow.up.right.circle''"
abbreviation Down :: SFSymbol where "Down \<equiv> named ''arrow.down.right.circle''"
abbreviation StrongDown :: SFSymbol where "StrongDown \<equiv> named ''arrow.down.circle''"
abbreviation Flat :: SFSymbol where "Flat \<equiv> named ''equal.circle''"
abbreviation Unknown :: SFSymbol where "Unknown \<equiv> named ''questionmark.circle''"

subsection \<open>\<open>getTrendSymbol\<close>\<close>

definition getTrendSymbol :: "number \<Rightarrow> number \<Rightarrow> SFSymbol" where
  "getTrendSymbol val comparedTo =
     (let diff = js_minus val comparedTo in
      if js_ge diff comparedTo then named ''arrow.up.circle''
      else if js_ge diff (Num 1) then named ''arrow.up.right.circle''
      else if js_le diff (Num (- 1)) then named ''arrow.down.right.circle''
      else if js_le diff (js_neg comparedTo) then named ''arrow.down.circle''
      else named ''equal.circle'')"

subsection \<open>Staleness of the cached data\<close>

text \<open>
  The warning image \<open>makeWidget\<close> adds to the update line, from the age of the data
  in milliseconds: none up to 24 hours, the exclamation mark in the warning colour
  up to 72 hours, the cross in the error colour beyond.
\<close>

datatype Colour = lightGray | yellow | orange | red

definition hours :: int where
  "hours = 60 * 60 * 1000"

definition updateWarning :: "int \<Rightarrow> (SFSymbol \<times> Colour) option" where
  "updateWarning age =
     (if age > 24 * hours then
        (if age > 72 * hours then Some (named ''xmark.circle.fill'', orange)
         else Some (named ''exclamationmark.circle.fill'', yellow))
      else None)"

text \<open>The names the specification gives to the three outcomes.\<close>

abbreviation Fresh :: "(SFSymbol \<times> Colour) option" where
  "Fresh \<equiv> None"
abbreviation Warn :: "(SFSymbol \<times> Colour) option" where
  "Warn \<equiv> Some (named ''exclamationmark.circle.fill'', yellow)"
abbreviation Critical :: "(SFSymbol \<times> Colour) option" where
  "Critical \<equiv> Some (named ''xmark.circle.fill'', orange)"

section \<open>Input normalisation: \<open>getLookupCodes\<close>\<close>

text \<open>
  The raw values the widget receives: the pieces of the comma separated widget
  parameter (strings), or the elements of the fixture \<open>testData\<close>, which also holds
  \<open>null\<close>, a number and an array.
\<close>

datatype raw = RNull | RStr string | RNum int | RArr "raw list"

definition digit :: "nat \<Rightarrow> char" where
  "digit n = ''0123456789'' ! n"

fun decimal :: "nat \<Rightarrow> string" where
  "decimal n = (if n < 10 then [digit n] else decimal (n div 10) @ [digit (n mod 10)])"

declare decimal.simps [simp del]

fun join :: "string \<Rightarrow> string list \<Rightarrow> string" where
  "join sep [] = []"
| "join sep [x] = x"
| "join sep (x # y # ys) = x @ sep @ join sep (y # ys)"

text \<open>
  The string form a template literal \<^verbatim>\<open>`${val}`\<close> gives a value. An array is the
  string forms of its elements joined by commas, with \<open>null\<close> elements left empty.
\<close>

fun toString :: "raw \<Rightarrow> string" where
  "toString RNull = ''null''"
| "toString (RStr s) = s"
| "toString (RNum n) = (if n < 0 then CHR ''-'' # decimal (nat (- n)) else decimal (nat n))"
| "toString (RArr xs) = join '','' (map (\<lambda>x. if x = RNull then [] else toString x) xs)"

text \<open>
  A string is the list of its code units, and a \<open>char\<close> is a code unit below 256.
  Among these, white space and line terminators are tab, line feed, vertical tab,
  form feed, carriage return, space and the no-break space U+00A0; they are what
  \<open>String.prototype.trim\<close> removes and \<open>Number.parseFloat\<close> skips.
\<close>

definition isWhiteSpace :: "char \<Rightarrow> bool" where
  "isWhiteSpace c = (of_char c \<in> {9, 10, 11, 12, 13, 32, 160 :: nat})"

definition trim :: "string \<Rightarrow> string" where
  "trim s = rev (dropWhile isWhiteSpace (rev (dropWhile isWhiteSpace s)))"

definition isDigit :: "char \<Rightarrow> bool" where
  "isDigit c = (48 \<le> (of_char c :: nat) \<and> (of_char c :: nat) \<le> 57)"

text \<open>Whether a string matches \<^verbatim>\<open>/^\d{5}$/\<close>.\<close>

definition fiveDigits :: "string \<Rightarrow> bool" where
  "fiveDigits s = (length s = 5 \<and> list_all isDigit s)"

text \<open>
  \<open>String.prototype.match\<close> with a regular expression without the \<open>g\<close> flag returns
  \<open>null\<close>, or a newly allocated array whose element 0 is the matched text. The array
  is an object: \<open>===\<close> and \<open>Array.prototype.includes\<close> compare it by reference. A
  match array is modelled by its reference and its text; the reference is the
  position of the raw value the array was made for, so that every call yields a
  different one.
\<close>

record MatchArray =
  ref :: nat
  text0 :: string

definition toCodes :: "nat \<Rightarrow> raw \<Rightarrow> MatchArray option" where
  "toCodes r val =
     (let s = trim (toString val) in
      if fiveDigits s then Some \<lparr>ref = r, text0 = s\<rparr> else None)"

definition notEmpty :: "MatchArray option \<Rightarrow> bool" where
  "notEmpty val = (val \<noteq> None)"

text \<open>\<open>ary.includes(val)\<close> on match arrays: some element is the same object.\<close>

definition includes_obj :: "MatchArray list \<Rightarrow> MatchArray \<Rightarrow> bool" where
  "includes_obj ary val = (ref val \<in> set (map ref ary))"

text \<open>
  \<^verbatim>\<open>(val, idx, ary) => idx === 0 || !ary.slice(0, idx - 1).includes(val)\<close>;
  for \<open>idx \<ge> 1\<close> the slice is the first \<open>idx - 1\<close> elements.
\<close>

definition unique :: "MatchArray \<Rightarrow> nat \<Rightarrow> MatchArray list \<Rightarrow> bool" where
  "unique val idx ary = (idx = 0 \<or> \<not> includes_obj (take (idx - 1) ary) val)"

text \<open>\<open>Array.prototype.filter\<close> with a callback of three arguments.\<close>

definition filter3 :: "('a \<Rightarrow> nat \<Rightarrow> 'a list \<Rightarrow> bool) \<Rightarrow> 'a list \<Rightarrow> 'a list" where
  "filter3 p ary = map snd (filter (\<lambda>(idx, val). p val idx ary) (enumerate 0 ary))"

text \<open>\<^verbatim>\<open>codes.map(toCodes).filter(notEmpty).filter(unique)\<close>\<close>

definition normalise :: "raw list \<Rightarrow> MatchArray list" where
  "normalise codes =
     filter3 unique
       (map the (filter notEmpty (map (\<lambda>(r, val). toCodes r val) (enumerate 0 codes))))"

text \<open>\<open>String.prototype.split\<close> with a one character separator.\<close>

fun split :: "string \<Rightarrow> char \<Rightarrow> string list" where
  "split [] sep = [[]]"
| "split (c # cs) sep =
     (if c = sep then [] # split cs sep
      else (case split cs sep of [] \<Rightarrow> [[c]] | p # ps \<Rightarrow> (c # p) # ps))"

definition testData :: "raw list" where
  "testData =
     [RStr '' 50937'', RStr ''51063'', RNull, RArr [RNum 1], RStr ''foo'', RNum 51429,
      RStr ''99999'']"

text \<open>
  What the script reads from its host: \<open>config.runsInWidget\<close>,
  \<open>args.widgetParameter\<close> (\<open>None\<close> for \<open>null\<close>) and \<open>Device.language()\<close>.
\<close>

record Host =
  runsInWidget :: bool
  widgetParameter :: "string option"
  language :: string

definition getLookupCodes :: "Host \<Rightarrow> MatchArray list" where
  "getLookupCodes host =
     (let codes =
        (if runsInWidget host then
           (case widgetParameter host of
              None \<Rightarrow> []
            | Some params \<Rightarrow> map RStr (split params CHR '',''))
         else testData)
      in normalise codes)"

section \<open>Data retrieval: \<open>getData\<close>\<close>

text \<open>
  A property of a JavaScript object that the script expects to hold a value of type
  \<open>'a\<close>: missing (\<open>undefined\<close>), \<open>null\<close>, or a value.
\<close>

datatype 'a field = Undefined | Null | Val 'a

text \<open>
  The properties \<open>getData\<close> reads from the parsed body of a response. The service
  sends text; the two indices are text that \<open>Number.parseFloat\<close> has to parse.
\<close>

record Response =
  cityName :: "string field"
  districtName :: "string field"
  lockdownIndex :: "string field"
  lockdownIndexPrevious2 :: "string field"
  dataSource :: "string field"

text \<open>
  The outcome of \<^verbatim>\<open>await request.loadJSON()\<close>: the promise is rejected (no
  connection, a body that is not JSON, whatever else makes \<open>Request\<close> throw), or it
  resolves to the parsed body, which is \<open>null\<close> for the body \<^verbatim>\<open>null\<close>.
\<close>

datatype Loaded = rejected | resolved "Response field"




text \<open>The string form of a property, as \<open>Number.parseFloat\<close> takes it.\<close>

fun fieldString :: "string field \<Rightarrow> string" where
  "fieldString Undefined = ''undefined''"
| "fieldString Null = ''null''"
| "fieldString (Val s) = s"

definition digitVal :: "char \<Rightarrow> int" where
  "digitVal c = of_char c - 48"

text \<open>The number a string of decimal digits denotes, most significant digit first.\<close>

definition digitsVal :: "string \<Rightarrow> int" where
  "digitsVal ds = foldl (\<lambda>acc c. 10 * acc + digitVal c) 0 ds"

fun stripPrefix :: "string \<Rightarrow> string \<Rightarrow> string option" where
  "stripPrefix [] s = Some s"
| "stripPrefix (p # ps) [] = None"
| "stripPrefix (p # ps) (c # cs) = (if p = c then stripPrefix ps cs else None)"

text \<open>
  The exponent part of a decimal literal at the head of a string: \<open>e\<close> or \<open>E\<close>, an
  optional sign and at least one digit; \<open>0\<close> when there is none.
\<close>

definition exponentPart :: "string \<Rightarrow> int" where
  "exponentPart s =
     (case s of
        [] \<Rightarrow> 0
      | c # r \<Rightarrow>
          if c = CHR ''e'' \<or> c = CHR ''E'' then
            (case r of
               [] \<Rightarrow> 0
             | d # r' \<Rightarrow>
                 if d = CHR ''-'' then
                   (if takeWhile isDigit r' = [] then 0
                    else - digitsVal (takeWhile isDigit r'))
                 else if d = CHR ''+'' then digitsVal (takeWhile isDigit r')
                 else digitsVal (takeWhile isDigit r))
          else 0)"

definition scale10 :: "rat \<Rightarrow> int \<Rightarrow> rat" where
  "scale10 m e = (if 0 \<le> e then m * 10 ^ nat e else m / 10 ^ nat (- e))"

text \<open>
  \<open>Number.parseFloat\<close> on a string: leading white space is skipped, the longest
  prefix that is a decimal literal (sign, \<open>Infinity\<close> or digits with an optional
  fraction and exponent) is read, and a string with no such prefix gives \<open>NaN\<close>.
  The result is the double nearest to the decimal value.
\<close>

definition parseFloat :: "string \<Rightarrow> number" where
  "parseFloat str =
     (let t = dropWhile isWhiteSpace str;
          neg = (case t of [] \<Rightarrow> False | c # _ \<Rightarrow> c = CHR ''-'');
          t1 = (case t of [] \<Rightarrow> [] | c # r \<Rightarrow> if c = CHR ''-'' \<or> c = CHR ''+'' then r else t)
      in if stripPrefix ''Infinity'' t1 \<noteq> None then (if neg then NegInf else PosInf)
         else
           (let ip = takeWhile isDigit t1;
                r1 = dropWhile isDigit t1;
                dot = (case r1 of [] \<Rightarrow> False | c # _ \<Rightarrow> c = CHR ''.'');
                fp = (if dot then takeWhile isDigit (tl r1) else []);
                r2 = (if dot then dropWhile isDigit (tl r1) else r1)
            in if ip = [] \<and> fp = [] then NaN
               else
                 (let mant = of_int (digitsVal ip)
                             + of_int (digitsVal fp) / 10 ^ length fp;
                      v = scale10 mant (exponentPart r2)
                  in round64 (if neg then - v else v))))"

text \<open>
  The typedef \<open>IncidenceInfo\<close>. \<open>code\<close> is the text of the match array the record
  was made for; \<open>incidence\<close> and \<open>previousIncidence\<close> come out of
  \<open>Number.parseFloat\<close> and are numbers, and are \<open>null\<close> only in records read back
  from the cache.
\<close>

record IncidenceInfo =
  code :: string
  place :: "string field"
  district :: "string field"
  incidence :: "number field"
  previousIncidence :: "number field"
  credit :: "string field"
  url :: "string field"

text \<open>The URL of a lookup; the template literal takes the text of the match array.\<close>

definition lookupURL :: "MatchArray \<Rightarrow> string" where
  "lookupURL c = ''https://covid.9digits.de/lockdown/'' @ text0 c"

text \<open>The object \<open>data\<close> that \<open>getData\<close> builds from a response.\<close>

definition toInfo :: "MatchArray \<Rightarrow> Response \<Rightarrow> IncidenceInfo" where
  "toInfo c resp =
     \<lparr>code = text0 c,
      place = cityName resp,
      district = districtName resp,
      incidence = Val (parseFloat (fieldString (lockdownIndex resp))),
      previousIncidence = Val (parseFloat (fieldString (lockdownIndexPrevious2 resp))),
      credit = dataSource resp,
      url = Val (lookupURL c)\<rparr>"

text \<open>
  The loop of \<open>getData\<close>. \<open>net k u\<close> is how the \<open>k\<close>-th request of the run, sent to
  the URL \<open>u\<close>, ends. Everything inside \<open>try\<close> that can throw ends the function with
  the empty array: the rejected promise, and the property read on a body that is
  \<open>null\<close>.
\<close>

fun getData_loop ::
  "(nat \<Rightarrow> string \<Rightarrow> Loaded) \<Rightarrow> nat \<Rightarrow> MatchArray list \<Rightarrow> IncidenceInfo list
     \<Rightarrow> IncidenceInfo list" where
  "getData_loop net k [] responses = responses"
| "getData_loop net k (c # codes) responses =
     (case net k (lookupURL c) of
        rejected \<Rightarrow> []
      | resolved Undefined \<Rightarrow> []
      | resolved Null \<Rightarrow> []
      | resolved (Val resp) \<Rightarrow> getData_loop net (Suc k) codes (responses @ [toInfo c resp]))"

definition getData :: "(nat \<Rightarrow> string \<Rightarrow> Loaded) \<Rightarrow> MatchArray list \<Rightarrow> IncidenceInfo list" where
  "getData net codes = getData_loop net 0 codes []"

text \<open>
  Vocabulary for statements about \<open>getData\<close>: a request succeeded when its promise
  resolved to a body that is an object; \<open>bodyOf\<close> is that body.
\<close>

fun succeeded :: "Loaded \<Rightarrow> bool" where
  "succeeded (resolved (Val resp)) = True"
| "succeeded _ = False"

fun bodyOf :: "Loaded \<Rightarrow> Response option" where
  "bodyOf (resolved (Val resp)) = Some resp"
| "bodyOf _ = None"

section \<open>The cache file\<close>

text \<open>
  The content of the cache file is a JSON document. \<open>JSON.stringify\<close> and
  \<open>JSON.parse\<close> are modelled between JavaScript values and the document tree;
  the text of a document is determined by its tree. An object is the list of its
  members in the order they were written.
\<close>

datatype json =
  JNull | JBool bool | JNumber rat | JString string | JArray "json list"
  | JObject "(string \<times> json) list"

text \<open>
  What \<open>JSON.stringify\<close> writes for a property: nothing when it is \<open>undefined\<close>,
  \<^verbatim>\<open>null\<close> when it is \<open>null\<close> or a number that is not finite.
\<close>

fun jmember :: "string \<Rightarrow> json field \<Rightarrow> (string \<times> json) list" where
  "jmember k Undefined = []"
| "jmember k Null = [(k, JNull)]"
| "jmember k (Val v) = [(k, v)]"

fun stringJSON :: "string field \<Rightarrow> json field" where
  "stringJSON Undefined = Undefined"
| "stringJSON Null = Null"
| "stringJSON (Val s) = Val (JString s)"

fun numberJSON :: "number field \<Rightarrow> json field" where
  "numberJSON Undefined = Undefined"
| "numberJSON Null = Null"
| "numberJSON (Val (Num r)) = Val (JNumber r)"
| "numberJSON (Val _) = Null"

text \<open>The code is a match array: an array of one string.\<close>

definition infoJSON :: "IncidenceInfo \<Rightarrow> json" where
  "infoJSON d =
     JObject
       (jmember ''code'' (Val (JArray [JString (code d)]))
        @ jmember ''place'' (stringJSON (place d))
        @ jmember ''district'' (stringJSON (district d))
        @ jmember ''incidence'' (numberJSON (incidence d))
        @ jmember ''previousIncidence'' (numberJSON (previousIncidence d))
        @ jmember ''credit'' (stringJSON (credit d))
        @ jmember ''url'' (stringJSON (url d)))"

text \<open>
  The object the script keeps in the cache: \<^verbatim>\<open>{ updated: Date.now(), data: responses }\<close>,
  with \<open>data\<close> \<open>null\<close> (\<open>None\<close>) in the object that stands in for a missing file.
\<close>

record CacheData =
  updated :: int
  data :: "IncidenceInfo list option"

definition stringify :: "CacheData \<Rightarrow> json" where
  "stringify s =
     JObject
       [(''updated'', JNumber (of_int (updated s))),
        (''data'', case data s of None \<Rightarrow> JNull | Some ds \<Rightarrow> JArray (map infoJSON ds))]"

text \<open>
  Reading the properties back from a parsed document. A document whose members do
  not have the types the script writes was not written by the script; reading it
  has no result (\<open>None\<close>).
\<close>

fun readString :: "json option \<Rightarrow> string field option" where
  "readString None = Some Undefined"
| "readString (Some JNull) = Some Null"
| "readString (Some (JString s)) = Some (Val s)"
| "readString (Some _) = None"

fun readNumber :: "json option \<Rightarrow> number field option" where
  "readNumber None = Some Undefined"
| "readNumber (Some JNull) = Some Null"
| "readNumber (Some (JNumber r)) = Some (Val (Num r))"
| "readNumber (Some _) = None"

fun readCode :: "json option \<Rightarrow> string option" where
  "readCode (Some (JArray [JString s])) = Some s"
| "readCode _ = None"

fun readInfo :: "json \<Rightarrow> IncidenceInfo option" where
  "readInfo (JObject ms) =
     do {
       c \<leftarrow> readCode (map_of ms ''code'');
       p \<leftarrow> readString (map_of ms ''place'');
       d \<leftarrow> readString (map_of ms ''district'');
       i \<leftarrow> readNumber (map_of ms ''incidence'');
       pi \<leftarrow> readNumber (map_of ms ''previousIncidence'');
       cr \<leftarrow> readString (map_of ms ''credit'');
       u \<leftarrow> readString (map_of ms ''url'');
       Some \<lparr>code = c, place = p, district = d, incidence = i, previousIncidence = pi,
             credit = cr, url = u\<rparr>
     }"
| "readInfo _ = None"

fun readData :: "json option \<Rightarrow> IncidenceInfo list option option" where
  "readData (Some JNull) = Some None"
| "readData (Some (JArray ds)) = map_option Some (those (map readInfo ds))"
| "readData _ = None"

fun readUpdated :: "json option \<Rightarrow> int option" where
  "readUpdated (Some (JNumber r)) = (if of_int \<lfloor>r\<rfloor> = r then Some \<lfloor>r\<rfloor> else None)"
| "readUpdated _ = None"

fun parse :: "json \<Rightarrow> CacheData option" where
  "parse (JObject ms) =
     do {
       t \<leftarrow> readUpdated (map_of ms ''updated'');
       ds \<leftarrow> readData (map_of ms ''data'');
       Some \<lparr>updated = t, data = ds\<rparr>
     }"
| "parse _ = None"

text \<open>
  The file at \<open>cache\<close> is \<open>None\<close> while it does not exist.
  \<^verbatim>\<open>fm.writeString(cache, JSON.stringify(respData))\<close> replaces it;
  \<^verbatim>\<open>fm.fileExists(cache) ? JSON.parse(fm.readString(cache)) : { updated: Date.now(), data: null }\<close>
  reads it, with \<open>now\<close> the value \<open>Date.now()\<close> would return.
\<close>

definition writeCache :: "CacheData \<Rightarrow> json option \<Rightarrow> json option" where
  "writeCache respData file = Some (stringify respData)"

definition readCache :: "int \<Rightarrow> json option \<Rightarrow> CacheData option" where
  "readCache now file =
     (case file of
        Some doc \<Rightarrow> parse doc
      | None \<Rightarrow> Some \<lparr>updated = now, data = None\<rparr>)"

text \<open>
  What becomes of a number on its way through the file: a number that is not finite
  is written as \<^verbatim>\<open>null\<close>. \<open>storedInfo\<close> and \<open>stored\<close> are a record and a cache
  object as they come back from the file.
\<close>

fun finiteOrNull :: "number field \<Rightarrow> number field" where
  "finiteOrNull (Val (Num r)) = Val (Num r)"
| "finiteOrNull (Val _) = Null"
| "finiteOrNull Null = Null"
| "finiteOrNull Undefined = Undefined"

definition storedInfo :: "IncidenceInfo \<Rightarrow> IncidenceInfo" where
  "storedInfo d =
     d\<lparr>incidence := finiteOrNull (incidence d),
       previousIncidence := finiteOrNull (previousIncidence d)\<rparr>"

definition stored :: "CacheData \<Rightarrow> CacheData" where
  "stored s = s\<lparr>data := map_option (map storedInfo) (data s)\<rparr>"

text \<open>
  A well-formed snapshot, in the sense of the specification's data model: the
  time stamp is an integer that a double holds exactly, and the two values of a
  record are finite numbers or absent.
\<close>

definition wellFormedInfo :: "IncidenceInfo \<Rightarrow> bool" where
  "wellFormedInfo d =
     (finiteOrNull (incidence d) = incidence d
      \<and> finiteOrNull (previousIncidence d) = previousIncidence d)"

definition wellFormed :: "CacheData \<Rightarrow> bool" where
  "wellFormed s =
     (\<bar>updated s\<bar> \<le> 2 ^ 53
      \<and> (case data s of None \<Rightarrow> True | Some ds \<Rightarrow> list_all wellFormedInfo ds))"

section \<open>Localised strings\<close>

text \<open>
  The templates of the widget, by language (letters outside ASCII transcribed), and
  their merge in the constructor of \<open>Localization\<close>: English, overridden by the
  entries of the base language of the device when the table has that language.
\<close>

definition strings :: "(string \<times> (string \<times> string) list) list" where
  "strings =
     [(''en'',
       [(''headlineShort'', ''Incidence''),
        (''headlineLong'', ''COVID-19 Incidence''),
        (''updated'', ''%{date:date unknown}, %{time:time unknown}''),
        (''msgUnknownShort'', ''?''),
        (''msgUnknownLong'', ''unknown''),
        (''msgCode'', ''Code %{code:?}''),
        (''msgCodeError'', ''No valid German postal codes found in parameters.''),
        (''msgNoData'', ''Unable to retrieve incidence data.'')]),
      (''de'',
       [(''headlineShort'', ''Inzidenz''),
        (''headlineLong'', ''COVID-19-Inzidenz''),
        (''updated'', ''%{date:Datum unbekannt}, %{time:Zeit unbekannt}''),
        (''msgUnknownShort'', ''?''),
        (''msgUnknownLong'', ''unbekannt''),
        (''msgCode'', ''PLZ %{code}''),
        (''msgCodeError'', ''Keine Postleitzahlen in der Eingabe gefunden.''),
        (''msgRequestError'', ''Inzidenzdaten koennen nicht abgerufen werden.'')])]"

text \<open>\<open>Object.assign(target, source)\<close> on tables.\<close>

definition assign :: "(string \<times> string) list \<Rightarrow> (string \<times> string) list \<Rightarrow> (string \<times> string) list" where
  "assign target source =
     map (\<lambda>(k, v). (k, case map_of source k of None \<Rightarrow> v | Some v' \<Rightarrow> v')) target
     @ filter (\<lambda>(k, v). map_of target k = None) source"

definition tableOf :: "(string \<times> (string \<times> string) list) list \<Rightarrow> string \<Rightarrow> (string \<times> string) list" where
  "tableOf strs lang = (case map_of strs lang of None \<Rightarrow> [] | Some t \<Rightarrow> t)"

definition Localization :: "(string \<times> (string \<times> string) list) list \<Rightarrow> string \<Rightarrow> (string \<times> string) list" where
  "Localization strs lang =
     (let base = hd (split lang CHR ''-'');
          langFallback = ''en-US'';
          baseFallback = ''en'';
          s0 = tableOf strs baseFallback;
          s1 = (if map_of strs langFallback \<noteq> None then assign s0 (tableOf strs langFallback) else s0);
          s2 = (if base \<noteq> baseFallback \<and> map_of strs base \<noteq> None
                then assign s1 (tableOf strs base) else s1)
      in if lang \<noteq> langFallback \<and> lang \<noteq> base \<and> map_of strs lang \<noteq> None
         then assign s2 (tableOf strs lang) else s2)"

text \<open>
  A match of \<^verbatim>\<open>%\{cur(:[^}]+)?\}\<close> at the head of a string: what follows the
  match. After the name comes the closing brace, or a colon, at least one character
  that is not a closing brace, and the closing brace.
\<close>

definition notBrace :: "char \<Rightarrow> bool" where
  "notBrace c = (c \<noteq> CHR ''}'')"

definition matchHole :: "string \<Rightarrow> string \<Rightarrow> string option" where
  "matchHole cur s =
     (case stripPrefix (''%{'' @ cur) s of
        None \<Rightarrow> None
      | Some r \<Rightarrow>
          (case r of
             [] \<Rightarrow> None
           | c # r' \<Rightarrow>
               if c = CHR ''}'' then Some r'
               else if c = CHR '':'' \<and> takeWhile notBrace r' \<noteq> [] \<and> dropWhile notBrace r' \<noteq> []
                 then Some (tl (dropWhile notBrace r'))
               else None))"

text \<open>
  A match of \<^verbatim>\<open>%\{[^:}]+:([^}]+)\}\<close> at the head of a string: the text of the
  group and what follows the match.
\<close>

definition notColonBrace :: "char \<Rightarrow> bool" where
  "notColonBrace c = (c \<noteq> CHR '':'' \<and> c \<noteq> CHR ''}'')"

definition matchDefault :: "string \<Rightarrow> (string \<times> string) option" where
  "matchDefault s =
     (case stripPrefix ''%{'' s of
        None \<Rightarrow> None
      | Some r \<Rightarrow>
          (case dropWhile notColonBrace r of
             [] \<Rightarrow> None
           | c # r' \<Rightarrow>
               if takeWhile notColonBrace r \<noteq> [] \<and> c = CHR '':''
                  \<and> takeWhile notBrace r' \<noteq> [] \<and> dropWhile notBrace r' \<noteq> []
               then Some (takeWhile notBrace r', tl (dropWhile notBrace r'))
               else None))"

lemma stripPrefix_length: "stripPrefix p s = Some r \<Longrightarrow> length s = length p + length r"
  by (induction p s rule: stripPrefix.induct) (auto split: if_splits)

lemma length_tl_dropWhile: "length (tl (dropWhile P xs)) \<le> length xs"
  using length_dropWhile_le [of P xs] by simp

lemma matchHole_shorter:
  assumes "matchHole cur s = Some rest"
  shows "length rest < length s"
proof -
  from assms obtain r where r: "stripPrefix (''%{'' @ cur) s = Some r"
    by (auto simp: matchHole_def split: option.splits)
  from assms r obtain c r' where c: "r = c # r'"
    and rest: "rest = r' \<or> rest = tl (dropWhile notBrace r')"
    by (auto simp: matchHole_def split: list.splits if_splits)
  have "length rest \<le> length r'"
    using rest length_tl_dropWhile [of notBrace r'] by auto
  also have "length r' < length r" using c by simp
  also have "\<dots> \<le> length s" using stripPrefix_length [OF r] by simp
  finally show ?thesis .
qed

lemma matchDefault_shorter:
  assumes "matchDefault s = Some (g, rest)"
  shows "length rest < length s"
proof -
  from assms obtain r where r: "stripPrefix ''%{'' s = Some r"
    by (auto simp: matchDefault_def split: option.splits)
  from assms r obtain c r' where d: "dropWhile notColonBrace r = c # r'"
    and rest: "rest = tl (dropWhile notBrace r')"
    by (auto simp: matchDefault_def split: list.splits if_splits)
  have "length rest \<le> length r'" using rest length_tl_dropWhile by simp
  also have "length r' < length (dropWhile notColonBrace r)" using d by simp
  also have "\<dots> \<le> length r" by (rule length_dropWhile_le)
  also have "\<dots> \<le> length s" using stripPrefix_length [OF r] by simp
  finally show ?thesis .
qed

text \<open>
  \<^verbatim>\<open>acc.replace(regex, replacements[cur])\<close> with the global flag: every match, from
  the left, gives way to the replacement, which is taken as it is (a code holds
  no \<open>$\<close>).
\<close>

function replaceHoles :: "string \<Rightarrow> string \<Rightarrow> string \<Rightarrow> string" where
  "replaceHoles cur v [] = []"
| "replaceHoles cur v (c # cs) =
     (case matchHole cur (c # cs) of
        Some rest \<Rightarrow> v @ replaceHoles cur v rest
      | None \<Rightarrow> c # replaceHoles cur v cs)"
  by pat_completeness auto
termination
  by (relation "measure (\<lambda>(cur, v, s). length s)") (auto dest: matchHole_shorter)

text \<open>\<^verbatim>\<open>str.replace(/%\{[^:}]+:([^}]+)\}/g, '$1')\<close>\<close>

function replaceDefaults :: "string \<Rightarrow> string" where
  "replaceDefaults [] = []"
| "replaceDefaults (c # cs) =
     (case matchDefault (c # cs) of
        Some (g, rest) \<Rightarrow> g @ replaceDefaults rest
      | None \<Rightarrow> c # replaceDefaults cs)"
  by pat_completeness auto
termination
  by (relation "measure length") (auto dest: matchDefault_shorter)

fun includes_str :: "string \<Rightarrow> string \<Rightarrow> bool" where
  "includes_str [] sub = (sub = [])"
| "includes_str (c # cs) sub = (stripPrefix sub (c # cs) \<noteq> None \<or> includes_str cs sub)"

text \<open>
  \<open>Localization.string\<close>. The replacements are the properties of the object passed,
  in order; a value \<open>None\<close> is a property that is \<open>null\<close> or \<open>undefined\<close>.
\<close>

definition l8n_string ::
  "(string \<times> string) list \<Rightarrow> string \<Rightarrow> (string \<times> string option) list \<Rightarrow> string" where
  "l8n_string strs key replacements =
     (let str = (case map_of strs key of None \<Rightarrow> key | Some t \<Rightarrow> if t = [] then key else t)
      in if includes_str str ''%{'' then
           replaceDefaults
             (foldl (\<lambda>acc (cur, v). case v of None \<Rightarrow> acc | Some x \<Rightarrow> replaceHoles cur x acc)
                str replacements)
         else str)"

section \<open>Building the widget: \<open>makeWidget\<close>\<close>

text \<open>The preference that matters for the data shown.\<close>

record Prefs =
  preferDistricts :: bool

text \<open>Truthiness of a string property, and \<open>a || b\<close>.\<close>

fun truthy :: "string field \<Rightarrow> bool" where
  "truthy (Val s) = (s \<noteq> [])"
| "truthy _ = False"

definition js_or :: "string field \<Rightarrow> string field \<Rightarrow> string field" where
  "js_or a b = (if truthy a then a else b)"

text \<open>\<open>codes[idx]\<close>, as the replacement value: \<open>undefined\<close> beyond the end of the array.\<close>

definition codeAt :: "MatchArray list \<Rightarrow> nat \<Rightarrow> string option" where
  "codeAt codes idx = (if idx < length codes then Some (text0 (codes ! idx)) else None)"

text \<open>
  The text of a line:
  \<^verbatim>\<open>const name = prefs.preferDistricts ? data.district : data.place || data.district\<close>
  \<^verbatim>\<open>const location = name || l8n.string('msgCode', { code: codes[idx] })\<close>
\<close>

definition placeholder :: "(string \<times> string) list \<Rightarrow> string option \<Rightarrow> string" where
  "placeholder l8n c = l8n_string l8n ''msgCode'' [(''code'', c)]"

definition location ::
  "Prefs \<Rightarrow> (string \<times> string) list \<Rightarrow> MatchArray list \<Rightarrow> nat \<Rightarrow> IncidenceInfo \<Rightarrow> string" where
  "location prefs l8n codes idx d =
     (let name = (if preferDistricts prefs then district d else js_or (place d) (district d))
      in case name of
           Val s \<Rightarrow> if s \<noteq> [] then s else placeholder l8n (codeAt codes idx)
         | _ \<Rightarrow> placeholder l8n (codeAt codes idx))"

definition getIncidenceColour :: "number \<Rightarrow> Colour option" where
  "getIncidenceColour forIndex =
     (if js_ge forIndex (Num 50) then Some red
      else if js_ge forIndex (Num 35) then Some yellow
      else None)"

text \<open>
  The trend image of a line:
  \<^verbatim>\<open>previous == null ? SFSymbol.named('questionmark.circle') : getTrendSymbol(current, previous)\<close>
\<close>

fun trendSymbol :: "number \<Rightarrow> number field \<Rightarrow> SFSymbol" where
  "trendSymbol current (Val previous) = getTrendSymbol current previous"
| "trendSymbol current _ = named ''questionmark.circle''"

text \<open>
  What a line shows next to the location: the figure with its colour and, unless
  the widget is small, the trend image; or the text for an unknown value.
\<close>

datatype Cell = Figure number "Colour option" "SFSymbol option" | UnknownValue

record Line =
  label :: string
  link :: "string field"
  cell :: Cell

definition cellOf :: "bool \<Rightarrow> IncidenceInfo \<Rightarrow> Cell" where
  "cellOf smallWidget d =
     (case incidence d of
        Val current \<Rightarrow>
          Figure current (getIncidenceColour current)
            (if \<not> smallWidget then Some (trendSymbol current (previousIncidence d)) else None)
      | _ \<Rightarrow> UnknownValue)"

text \<open>
  One round of \<^verbatim>\<open>locData.data.forEach((data, idx) => ...)\<close> on the lines and the
  credits collected so far. The locations are the labels of the lines; \<open>link\<close> is
  the URL of the label, set when \<open>data.url\<close> is truthy. The empty stack that a
  round adds for a location already shown is left out.
\<close>

definition addLine ::
  "Prefs \<Rightarrow> (string \<times> string) list \<Rightarrow> MatchArray list \<Rightarrow> nat \<Rightarrow> bool
     \<Rightarrow> Line list \<times> string list \<Rightarrow> nat \<times> IncidenceInfo \<Rightarrow> Line list \<times> string list" where
  "addLine prefs l8n codes maxLines smallWidget acc entry =
     (case (acc, entry) of
        ((lines, credits), (idx, d)) \<Rightarrow>
          if length lines < maxLines then
            (let loc = location prefs l8n codes idx d in
             if loc \<notin> set (map label lines) then
               (lines @ [\<lparr>label = loc, link = (if truthy (url d) then url d else Undefined),
                          cell = cellOf smallWidget d\<rparr>],
                (case incidence d of
                   Val current \<Rightarrow>
                     (case credit d of
                        Val cr \<Rightarrow> if cr \<noteq> [] \<and> cr \<notin> set credits then credits @ [cr] else credits
                      | _ \<Rightarrow> credits)
                 | _ \<Rightarrow> credits))
             else (lines, credits))
          else (lines, credits))"

text \<open>
  The widget, as far as the data decides it: the error for a parameter without
  codes; or the update line (time stamp and warning image) followed by the error
  for missing data or by the lines and, on a large widget, the credits.
\<close>

datatype Widget =
  CodeError string
  | NoData int "(SFSymbol \<times> Colour) option" string
  | Listing int "(SFSymbol \<times> Colour) option" "Line list" "string list"

text \<open>
  A run of \<open>makeWidget\<close>: the cache file it leaves, the calls it made (\<open>fetched\<close> is
  the result of \<open>getData\<close> when it was called, \<open>written\<close> the object passed to
  \<open>JSON.stringify\<close> and \<open>writeString\<close> when they were called), the value of the
  variable \<open>age\<close> when the run gets to it, and the widget; no widget is modelled
  for a cache file the script did not write.
\<close>

record Run =
  cacheFile :: "json option"
  fetched :: "IncidenceInfo list option"
  written :: "CacheData option"
  age :: "int option"
  widget :: "Widget option"

text \<open>
  \<open>clock n\<close> is what the \<open>n\<close>-th call of \<open>Date.now()\<close> in the run returns, counted
  from \<open>0\<close>. The run calls it when it writes the cache, when it finds no cache
  file, and when it computes the age of the data.
\<close>

definition makeWidget ::
  "Host \<Rightarrow> Prefs \<Rightarrow> string \<Rightarrow> (nat \<Rightarrow> string \<Rightarrow> Loaded) \<Rightarrow> (nat \<Rightarrow> int) \<Rightarrow> json option
     \<Rightarrow> Run" where
  "makeWidget host prefs size0 net clock file =
     (let maxLines = (if size0 = ''large'' then 11 else 3 :: nat);
          smallWidget = (size0 = ''small'');
          l8n = Localization strings (language host);
          codes = getLookupCodes host
      in if codes = [] then
           \<lparr>cacheFile = file, fetched = None, written = None, age = None,
            widget = Some (CodeError (l8n_string l8n ''msgCodeError'' []))\<rparr>
         else
           (let responses = getData net codes;
                respData = \<lparr>updated = clock 0, data = Some responses\<rparr>;
                file1 = (if responses \<noteq> [] then writeCache respData file else file);
                n1 = (if responses \<noteq> [] then 1 else 0 :: nat);
                n2 = (if file1 = None then Suc n1 else n1)
            in \<lparr>cacheFile = file1,
                fetched = Some responses,
                written = (if responses \<noteq> [] then Some respData else None),
                age = map_option (\<lambda>locData. clock n2 - updated locData)
                        (readCache (clock n1) file1),
                widget =
                  (case readCache (clock n1) file1 of
                     None \<Rightarrow> None
                   | Some locData \<Rightarrow>
                       (let age0 = clock n2 - updated locData in
                        case data locData of
                          None \<Rightarrow>
                            Some (NoData (updated locData) (updateWarning age0)
                                    (l8n_string l8n ''msgNoData'' []))
                        | Some ds \<Rightarrow>
                            if ds = [] then
                              Some (NoData (updated locData) (updateWarning age0)
                                      (l8n_string l8n ''msgNoData'' []))
                            else
                              (case foldl (addLine prefs l8n codes maxLines smallWidget) ([], [])
                                      (enumerate 0 ds) of
                                 (lines, credits) \<Rightarrow>
                                   Some (Listing (updated locData) (updateWarning age0) lines
                                           (if size0 = ''large'' then credits else [])))))\<rparr>))"

section \<open>Example data\<close>

text \<open>
  Two codes, a response whose previous index is not a number, services that fail at
  the second request, never and always, two widget parameters, a clock that
  advances by 7 milliseconds from one reading to the next, the snapshot of an
  earlier run for the code 99999, which the service does not know, and a snapshot
  with a known place.
\<close>

definition exampleCodes :: "MatchArray list" where
  "exampleCodes = [\<lparr>ref = 0, text0 = ''50937''\<rparr>, \<lparr>ref = 1, text0 = ''51063''\<rparr>]"

definition exampleResponse :: Response where
  "exampleResponse =
     \<lparr>cityName = Val ''Koeln'', districtName = Val ''Koeln'', lockdownIndex = Val ''40.5'',
      lockdownIndexPrevious2 = Val ''n/a'', dataSource = Val ''RKI''\<rparr>"


definition exampleUp :: "nat \<Rightarrow> string \<Rightarrow> Loaded" where
  "exampleUp k u = resolved (Val exampleResponse)"

definition exampleHost :: Host where
  "exampleHost = \<lparr>runsInWidget = True, widgetParameter = Some ''50937, 51063'', language = ''en''\<rparr>"

definition exampleHostNoCodes :: Host where
  "exampleHostNoCodes = \<lparr>runsInWidget = True, widgetParameter = Some ''foo,1234'', language = ''en''\<rparr>"

definition exampleOffline :: "nat \<Rightarrow> string \<Rightarrow> Loaded" where
  "exampleOffline k u = rejected"

definition exampleClock :: "nat \<Rightarrow> int" where
  "exampleClock n = 1604400000000 + 7 * int n"

definition staleSnapshot :: CacheData where
  "staleSnapshot =
     \<lparr>updated = 1604400000000,
      data = Some [\<lparr>code = ''99999'', place = Undefined, district = Undefined, incidence = Null,
                    previousIncidence = Null, credit = Undefined,
                    url = Val ''https://covid.9digits.de/lockdown/99999''\<rparr>]\<rparr>"

definition exampleInfo :: IncidenceInfo where
  "exampleInfo =
     \<lparr>code = ''50937'', place = Undefined, district = Null, incidence = Val (Num 40.5),
      previousIncidence = Null, credit = Val ''RKI'',
      url = Val ''https://covid.9digits.de/lockdown/50937''\<rparr>"

definition exampleSnapshot :: CacheData where
  "exampleSnapshot = \<lparr>updated = 1604400000000, data = Some [exampleInfo]\<rparr>"

section \<open>Theorems\<close>

subsection \<open>Input normalisation\<close>

lemma refs_of_matches:
  "map ref (map the (filter notEmpty (map (\<lambda>(r, val). toCodes r val) (enumerate n xs))))
   = map fst (filter (\<lambda>(r, val). fiveDigits (trim (toString val))) (enumerate n xs))"
  by (induction xs arbitrary: n) (auto simp: toCodes_def notEmpty_def Let_def)

lemma texts_of_matches:
  "map text0 (map the (filter notEmpty (map (\<lambda>(r, val). toCodes r val) (enumerate n xs))))
   = filter fiveDigits (map (\<lambda>val. trim (toString val)) xs)"
  by (induction xs arbitrary: n) (auto simp: toCodes_def notEmpty_def Let_def)

lemma distinct_refs:
  "distinct (map ref (map the (filter notEmpty (map (\<lambda>(r, val). toCodes r val) (enumerate n xs)))))"
  unfolding refs_of_matches
  by (rule distinct_map_filter) (simp add: distinct_enumerate[simplified] )

lemma unique_of_distinct:
  assumes "distinct (map ref ary)" and "idx < length ary"
  shows "unique (ary ! idx) idx ary"
proof (cases "idx = 0")
  case True
  then show ?thesis by (simp add: unique_def)
next
  case False
  have "ref (ary ! idx) \<notin> set (map ref (take (idx - 1) ary))"
  proof
    assume "ref (ary ! idx) \<in> set (map ref (take (idx - 1) ary))"
    then obtain j where j: "j < idx - 1" "j < length ary" "ref (ary ! j) = ref (ary ! idx)"
      by (auto simp: in_set_conv_nth)
    with assms have "j = idx"
      by (metis distinct_conv_nth length_map nth_map)
    with j show False by simp
  qed
  then show ?thesis by (simp add: unique_def includes_obj_def)
qed

lemma filter3_unique_distinct:
  assumes "distinct (map ref ary)"
  shows "filter3 unique ary = ary"
proof -
  have "\<forall>p \<in> set (enumerate 0 ary). (\<lambda>(idx, val). unique val idx ary) p"
    using assms by (auto simp: in_set_enumerate_eq unique_of_distinct)
  then have "filter (\<lambda>(idx, val). unique val idx ary) (enumerate 0 ary) = enumerate 0 ary"
    by (simp add: filter_id_conv)
  then show ?thesis by (simp add: filter3_def)
qed

text \<open>
  What \<open>getLookupCodes\<close> returns for any input: the trimmed string forms that are
  five digits, in order, every occurrence of a repeated code included. The match
  arrays that the filter \<open>unique\<close> compares are different objects, so it removes
  nothing.
\<close>

lemma normalise_keeps_all:
  "map text0 (normalise codes) = filter fiveDigits (map (\<lambda>val. trim (toString val)) codes)"
  unfolding normalise_def filter3_unique_distinct [OF distinct_refs]
  by (rule texts_of_matches)

text \<open>
  C5. The normaliser coerces, trims and keeps the five digit strings in order, and
  on the fixture yields the four codes; but on \<open>['50937', '50937']\<close> the script
  returns both entries where the claim asks for one: it does not deduplicate.
\<close>

theorem getLookupCodes_duplicate:
  "map text0 (normalise [RStr ''50937'', RStr ''50937'']) = [''50937'', ''50937'']
   \<and> map text0 (normalise [RStr ''50937'', RStr ''50937'']) \<noteq> [''50937'']
   \<and> map text0 (getLookupCodes \<lparr>runsInWidget = True, widgetParameter = Some ''50937,50937'',
                                    language = ''en''\<rparr>) = [''50937'', ''50937'']
   \<and> map text0 (normalise testData) = [''50937'', ''51063'', ''51429'', ''99999'']"
  by (simp add: getLookupCodes_def normalise_keeps_all testData_def trim_def fiveDigits_def
      isDigit_def isWhiteSpace_def decimal.simps digit_def)

subsection \<open>Data retrieval\<close>

lemma getData_loop_all:
  "(\<forall>j<length codes. succeeded (net (k + j) (lookupURL (codes ! j)))) \<Longrightarrow>
   getData_loop net k codes acc =
     acc @ map (\<lambda>(i, c). toInfo c (the (bodyOf (net i (lookupURL c))))) (enumerate k codes)"
proof (induction codes arbitrary: k acc)
  case Nil
  then show ?case by simp
next
  case (Cons c codes)
  from Cons.prems have hd: "succeeded (net k (lookupURL c))" by auto
  then obtain resp where resp: "net k (lookupURL c) = resolved (Val resp)"
    by (cases "net k (lookupURL c)" rule: succeeded.cases) auto
  from Cons.prems have "\<forall>j<length codes. succeeded (net (Suc k + j) (lookupURL (codes ! j)))"
    by auto
  from Cons.IH [OF this] resp show ?case by simp
qed

lemma getData_loop_fail:
  "\<exists>j<length codes. \<not> succeeded (net (k + j) (lookupURL (codes ! j))) \<Longrightarrow>
   getData_loop net k codes acc = []"
proof (induction codes arbitrary: k acc)
  case Nil
  then show ?case by simp
next
  case (Cons c codes)
  show ?case
  proof (cases "succeeded (net k (lookupURL c))")
    case False
    then show ?thesis
      by (cases "net k (lookupURL c)" rule: succeeded.cases) auto
  next
    case True
    then obtain resp where resp: "net k (lookupURL c) = resolved (Val resp)"
      by (cases "net k (lookupURL c)" rule: succeeded.cases) auto
    from Cons.prems obtain j where j: "j < Suc (length codes)"
      "\<not> succeeded (net (k + j) (lookupURL ((c # codes) ! j)))" by auto
    with True obtain j' where "j = Suc j'" by (cases j) auto
    with j have "\<exists>j<length codes. \<not> succeeded (net (Suc k + j) (lookupURL (codes ! j)))"
      by auto
    from Cons.IH [OF this] resp show ?thesis by simp
  qed
qed

lemma map_code_enumerate:
  "map code (map (\<lambda>(i, c). toInfo c (f i c)) (enumerate k codes)) = map text0 codes"
  by (induction codes arbitrary: k) (auto simp: toInfo_def)




subsection \<open>The cache file\<close>

lemma map_of_jmember_skip: "k \<noteq> k' \<Longrightarrow> map_of (jmember k' v @ rest) k = map_of rest k"
  by (cases v) auto

lemma map_of_jmember_none: "k \<noteq> k' \<Longrightarrow> map_of (jmember k' v) k = None"
  by (cases v) auto

lemma readString_here:
  "map_of rest k = None \<Longrightarrow> readString (map_of (jmember k (stringJSON f) @ rest) k) = Some f"
  by (cases f) auto

lemma readString_last: "readString (map_of (jmember k (stringJSON f)) k) = Some f"
  by (cases f) auto

lemma readNumber_here:
  "map_of rest k = None \<Longrightarrow>
   readNumber (map_of (jmember k (numberJSON f) @ rest) k) = Some (finiteOrNull f)"
  by (cases f rule: finiteOrNull.cases) auto

lemma readInfo_infoJSON: "readInfo (infoJSON d) = Some (storedInfo d)"
  by (simp add: infoJSON_def map_of_jmember_skip map_of_jmember_none readString_here
      readString_last readNumber_here storedInfo_def del: map_of_append)

lemma those_readInfo: "those (map (readInfo \<circ> infoJSON) ds) = Some (map storedInfo ds)"
  by (induction ds) (simp_all add: readInfo_infoJSON)

lemma parse_stringify: "parse (stringify s) = Some (stored s)"
  by (cases "data s") (simp_all add: stringify_def stored_def those_readInfo)

lemma stored_wellFormed: "wellFormed s \<Longrightarrow> stored s = s"
proof -
  assume wf: "wellFormed s"
  have "wellFormedInfo d \<Longrightarrow> storedInfo d = d" for d
    by (simp add: wellFormedInfo_def storedInfo_def)
  then have "list_all wellFormedInfo ds \<Longrightarrow> map storedInfo ds = ds" for ds
    by (induction ds) auto
  with wf show ?thesis
    by (cases "data s") (simp_all add: wellFormed_def stored_def)
qed

text \<open>
  C3. Writing a well-formed snapshot to the cache and reading the cache gives the
  snapshot back: the integer time stamp and every property of every record are
  the ones written.
\<close>

theorem cache_round_trip:
  "wellFormed s \<Longrightarrow> readCache now (writeCache s file) = Some s"
  by (simp add: readCache_def writeCache_def parse_stringify stored_wellFormed)

theorem cache_round_trip_witness:
  "wellFormed exampleSnapshot
   \<and> readCache 0 (writeCache exampleSnapshot None) = Some exampleSnapshot"
proof -
  have wf: "wellFormed exampleSnapshot"
    by (simp add: wellFormed_def wellFormedInfo_def exampleSnapshot_def exampleInfo_def)
  from cache_round_trip [OF wf] wf show ?thesis by blast
qed

subsection \<open>Trend and staleness\<close>

lemma pow2_positive: "0 < pow2 e"
  by (simp add: pow2_def)

lemma roundHalfEven_nonneg: "0 \<le> q \<Longrightarrow> 0 \<le> roundHalfEven q"
  by (auto simp: roundHalfEven_def Let_def)

lemma roundMagnitude_nonneg:
  assumes "0 \<le> r"
  shows "0 \<le> roundMagnitude r"
proof -
  have "0 \<le> r / pow2 e" for e
    using assms pow2_positive [of e] by simp
  then have "0 \<le> roundHalfEven (r / pow2 e)" for e
    by (rule roundHalfEven_nonneg)
  then show ?thesis
    using pow2_positive by (simp add: roundMagnitude_def Let_def less_imp_le)
qed

lemma round64_nonneg: "0 \<le> r \<Longrightarrow> js_le (Num 0) (round64 r)"
  by (simp add: round64_def roundMagnitude_nonneg)

text \<open>The differences of the examples are integers, which rounding leaves alone.\<close>

lemma binade_1: "binade 1 = 0"
  by (simp add: binade_def pow2_def ilog2.simps)

lemma binade_5: "binade 5 = 2"
  by (simp add: binade_def pow2_def ilog2.simps)

lemma roundMagnitude_1: "roundMagnitude 1 = 1"
  by (simp add: roundMagnitude_def binade_1 pow2_def roundHalfEven_def)

lemma roundMagnitude_5: "roundMagnitude 5 = 5"
  by (simp add: roundMagnitude_def binade_5 pow2_def roundHalfEven_def)

lemma round64_examples:
  "round64 0 = Num 0" "round64 5 = Num 5" "round64 1 = Num 1" "round64 (- 1) = Num (- 1)"
  "round64 (- 5) = Num (- 5)"
  by (simp_all add: round64_def roundMagnitude_1 roundMagnitude_5)

text \<open>
  C6. A value of zero after a previous value of zero is StrongUp, not Flat; with a
  previous value of zero every difference that is not negative is StrongUp.
\<close>

theorem trend_zero_previous:
  "getTrendSymbol (Num 0) (Num 0) = StrongUp
   \<and> getTrendSymbol (Num 0) (Num 0) \<noteq> Flat
   \<and> trendSymbol (Num 0) (Val (Num 0)) = StrongUp
   \<and> (\<forall>current. 0 \<le> current - 0 \<longrightarrow> getTrendSymbol (Num current) (Num 0) = StrongUp)"
proof -
  have zero: "getTrendSymbol (Num 0) (Num 0) = StrongUp"
    by (simp add: getTrendSymbol_def js_ge_def round64_def)
  have "getTrendSymbol (Num current) (Num 0) = StrongUp" if "0 \<le> current" for current
    using round64_nonneg [OF that] by (simp add: getTrendSymbol_def js_ge_def)
  with zero show ?thesis by simp
qed

theorem trend_zero_previous_witness:
  "(0::rat) \<le> 3 - 0 \<and> getTrendSymbol (Num 3) (Num 0) = StrongUp"
  using trend_zero_previous by simp

text \<open>
  For a previous value of 1 or more, no current value gives the symbol
  \<open>arrow.down.circle\<close>: a difference that is at most minus the previous value is
  at most -1, and \<open>getTrendSymbol\<close> has answered \<open>arrow.down.right.circle\<close> by then.
\<close>

lemma strong_down_unreachable:
  assumes "1 \<le> previous"
  shows "getTrendSymbol current (Num previous) \<noteq> StrongDown"
proof (cases "js_minus current (Num previous)")
  case (Num x)
  with assms show ?thesis
    by (auto simp: getTrendSymbol_def js_ge_def Let_def split: if_splits)
qed (simp_all add: getTrendSymbol_def js_ge_def Let_def)

text \<open>
  C7. A current value of 0 after a previous value of 5 should be StrongDown, the
  difference -5 being at most minus the previous value. \<open>getTrendSymbol\<close> answers
  Down: it tests \<open>diff <= -1\<close> before \<open>diff <= -comparedTo\<close>, while on the way up it
  tests the strong case first. The other examples of the specification come out as
  stated.
\<close>

theorem trend_zero_five:
  "getTrendSymbol (Num 0) (Num 5) = Down
   \<and> getTrendSymbol (Num 0) (Num 5) \<noteq> StrongDown
   \<and> trendSymbol (Num 0) (Val (Num 5)) = Down
   \<and> trendSymbol (Num 10) (Val (Num 5)) = StrongUp
   \<and> trendSymbol (Num 6) (Val (Num 5)) = Up
   \<and> trendSymbol (Num 5) (Val (Num 5)) = Flat
   \<and> trendSymbol (Num 4) (Val (Num 5)) = Down
   \<and> trendSymbol (Num 0) Null = Unknown"
  by (simp add: getTrendSymbol_def js_ge_def round64_examples Let_def)

text \<open>
  C4. With \<open>age = now - updatedAt\<close> in milliseconds, the classification is Fresh
  exactly when the age is at most 24 hours, Warn exactly when it is above 24 and at
  most 72 hours, and Critical exactly when it is above 72 hours; so 24 hours is
  Fresh, one millisecond more is Warn, 72 hours is Warn and one millisecond more is
  Critical.
\<close>

theorem staleness_buckets:
  "(updateWarning (now - updatedAt) = Fresh) = (now - updatedAt \<le> 24 * hours)
   \<and> (updateWarning (now - updatedAt) = Warn)
       = (24 * hours < now - updatedAt \<and> now - updatedAt \<le> 72 * hours)
   \<and> (updateWarning (now - updatedAt) = Critical) = (72 * hours < now - updatedAt)
   \<and> updateWarning (24 * hours) = Fresh
   \<and> updateWarning (24 * hours + 1) = Warn
   \<and> updateWarning (72 * hours) = Warn
   \<and> updateWarning (72 * hours + 1) = Critical
   \<and> hours = 3600000"
  by (simp add: updateWarning_def hours_def)

subsection \<open>Runs of \<open>makeWidget\<close>\<close>

lemmas normalise_eval =
  getLookupCodes_def normalise_def filter3_def unique_def includes_obj_def toCodes_def
  notEmpty_def trim_def fiveDigits_def isDigit_def isWhiteSpace_def

lemma exampleHost_codes: "getLookupCodes exampleHost = exampleCodes"
  by (simp add: exampleHost_def exampleCodes_def normalise_eval)

lemma exampleHostNoCodes_codes: "getLookupCodes exampleHostNoCodes = []"
  by (simp add: exampleHostNoCodes_def normalise_eval)

lemma exampleHost_language: "language exampleHost = ''en''"
  by (simp add: exampleHost_def)

lemma exampleCodes_nonempty: "exampleCodes \<noteq> []"
  by (simp add: exampleCodes_def)

lemma getData_offline: "getData exampleOffline exampleCodes = []"
  by (simp add: getData_def exampleOffline_def exampleCodes_def)

lemma getData_up:
  "getData exampleUp exampleCodes =
     [toInfo \<lparr>ref = 0, text0 = ''50937''\<rparr> exampleResponse,
      toInfo \<lparr>ref = 1, text0 = ''51063''\<rparr> exampleResponse]"
  by (simp add: getData_def exampleUp_def exampleCodes_def)

lemma l8n_en: "Localization strings ''en'' = tableOf strings ''en''"
  by (simp add: Localization_def strings_def tableOf_def)

lemma msgNoData_en: "l8n_string (Localization strings ''en'') ''msgNoData'' [] = ''Unable to retrieve incidence data.''"
  unfolding l8n_en by (simp add: l8n_string_def strings_def tableOf_def)
lemma makeWidget_no_codes:
  "getLookupCodes host = [] \<Longrightarrow>
   makeWidget host prefs size0 net clock file =
     \<lparr>cacheFile = file, fetched = None, written = None, age = None,
      widget = Some (CodeError (l8n_string (Localization strings (language host)) ''msgCodeError'' []))\<rparr>"
  by (simp add: makeWidget_def)

lemma makeWidget_fetched:
  "getLookupCodes host \<noteq> [] \<Longrightarrow>
   fetched (makeWidget host prefs size0 net clock file) = Some (getData net (getLookupCodes host))"
  by (simp add: makeWidget_def Let_def)

lemma makeWidget_written:
  "getLookupCodes host \<noteq> [] \<Longrightarrow>
   written (makeWidget host prefs size0 net clock file) =
     (if getData net (getLookupCodes host) \<noteq> []
      then Some \<lparr>updated = clock 0, data = Some (getData net (getLookupCodes host))\<rparr> else None)"
  by (simp add: makeWidget_def Let_def)

lemma makeWidget_cacheFile:
  "getLookupCodes host \<noteq> [] \<Longrightarrow>
   cacheFile (makeWidget host prefs size0 net clock file) =
     (if getData net (getLookupCodes host) \<noteq> []
      then Some (stringify \<lparr>updated = clock 0, data = Some (getData net (getLookupCodes host))\<rparr>)
      else file)"
  by (simp add: makeWidget_def Let_def writeCache_def)

text \<open>
  C2. A run calls \<open>getData\<close> on its codes unless it has none, and it writes the
  cache exactly when \<open>getData\<close> was called and returned a batch that is not
  empty, and then that batch with the time of the write. After a run whose batch
  is empty, and after a run without valid codes, in which \<open>getData\<close> is not
  called, the cache file is the file from before the run.
\<close>

theorem write_iff_fetched:
  "fetched (makeWidget host prefs size0 net clock file)
     = (if getLookupCodes host = [] then None else Some (getData net (getLookupCodes host)))
   \<and> written (makeWidget host prefs size0 net clock file)
     = (if getLookupCodes host \<noteq> [] \<and> getData net (getLookupCodes host) \<noteq> []
        then Some \<lparr>updated = clock 0, data = Some (getData net (getLookupCodes host))\<rparr>
        else None)
   \<and> cacheFile (makeWidget host prefs size0 net clock file)
     = (if getLookupCodes host \<noteq> [] \<and> getData net (getLookupCodes host) \<noteq> []
        then writeCache \<lparr>updated = clock 0, data = Some (getData net (getLookupCodes host))\<rparr> file
        else file)
   \<and> (written (makeWidget host prefs size0 net clock file) \<noteq> None)
     = (\<exists>rs. fetched (makeWidget host prefs size0 net clock file) = Some rs \<and> rs \<noteq> [])
   \<and> (\<forall>s. written (makeWidget host prefs size0 net clock file) = Some s \<longrightarrow>
          cacheFile (makeWidget host prefs size0 net clock file) = writeCache s file)
   \<and> (written (makeWidget host prefs size0 net clock file) = None \<longrightarrow>
          cacheFile (makeWidget host prefs size0 net clock file) = file)
   \<and> (fetched (makeWidget host prefs size0 net clock file) = Some [] \<longrightarrow>
          cacheFile (makeWidget host prefs size0 net clock file) = file)
   \<and> (getLookupCodes host = [] \<longrightarrow>
          fetched (makeWidget host prefs size0 net clock file) = None
          \<and> cacheFile (makeWidget host prefs size0 net clock file) = file)"
proof (cases "getLookupCodes host = []")
  case True
  then show ?thesis by (simp add: makeWidget_no_codes)
next
  case False
  then show ?thesis
    by (simp add: makeWidget_fetched makeWidget_written makeWidget_cacheFile writeCache_def)
qed

theorem write_iff_fetched_witness:
  "getLookupCodes exampleHostNoCodes = []
   \<and> cacheFile (makeWidget exampleHostNoCodes \<lparr>preferDistricts = False\<rparr> ''small'' exampleUp
         exampleClock (Some (stringify exampleSnapshot))) = Some (stringify exampleSnapshot)
   \<and> fetched (makeWidget exampleHost \<lparr>preferDistricts = False\<rparr> ''small'' exampleOffline
         exampleClock (Some (stringify exampleSnapshot))) = Some []
   \<and> cacheFile (makeWidget exampleHost \<lparr>preferDistricts = False\<rparr> ''small'' exampleOffline
         exampleClock (Some (stringify exampleSnapshot))) = Some (stringify exampleSnapshot)
   \<and> getLookupCodes exampleHost \<noteq> [] \<and> getData exampleUp (getLookupCodes exampleHost) \<noteq> []
   \<and> fetched (makeWidget exampleHost \<lparr>preferDistricts = False\<rparr> ''small'' exampleUp
         exampleClock (Some (stringify exampleSnapshot)))
       = Some (getData exampleUp exampleCodes)
   \<and> written (makeWidget exampleHost \<lparr>preferDistricts = False\<rparr> ''small'' exampleUp
         exampleClock (Some (stringify exampleSnapshot)))
       = Some \<lparr>updated = 1604400000000, data = Some (getData exampleUp exampleCodes)\<rparr>
   \<and> cacheFile (makeWidget exampleHost \<lparr>preferDistricts = False\<rparr> ''small'' exampleUp
         exampleClock (Some (stringify exampleSnapshot)))
       = Some (stringify \<lparr>updated = 1604400000000, data = Some (getData exampleUp exampleCodes)\<rparr>)"
proof -
  have none: "getLookupCodes exampleHostNoCodes = []"
    by (rule exampleHostNoCodes_codes)
  have empty: "fetched (makeWidget exampleHost \<lparr>preferDistricts = False\<rparr> ''small'' exampleOffline
         exampleClock (Some (stringify exampleSnapshot))) = Some []"
    by (simp add: makeWidget_fetched exampleHost_codes exampleCodes_nonempty getData_offline)
  have up: "getLookupCodes exampleHost \<noteq> [] \<and> getData exampleUp (getLookupCodes exampleHost) \<noteq> []"
    by (simp add: exampleHost_codes exampleCodes_nonempty getData_up)
  from none
    write_iff_fetched [where host = exampleHostNoCodes and prefs = "\<lparr>preferDistricts = False\<rparr>"
      and ?size0.0 = "''small''" and net = exampleUp and clock = exampleClock
      and ?file = "Some (stringify exampleSnapshot)"]
  have a: "cacheFile (makeWidget exampleHostNoCodes \<lparr>preferDistricts = False\<rparr> ''small'' exampleUp
         exampleClock (Some (stringify exampleSnapshot))) = Some (stringify exampleSnapshot)"
    by blast
  from empty
    write_iff_fetched [where host = exampleHost and prefs = "\<lparr>preferDistricts = False\<rparr>"
      and ?size0.0 = "''small''" and net = exampleOffline and clock = exampleClock
      and ?file = "Some (stringify exampleSnapshot)"]
  have b: "cacheFile (makeWidget exampleHost \<lparr>preferDistricts = False\<rparr> ''small'' exampleOffline
         exampleClock (Some (stringify exampleSnapshot))) = Some (stringify exampleSnapshot)"
    by blast
  note inst = write_iff_fetched [where host = exampleHost and prefs = "\<lparr>preferDistricts = False\<rparr>"
      and ?size0.0 = "''small''" and net = exampleUp and clock = exampleClock
      and ?file = "Some (stringify exampleSnapshot)"]
  from up inst
  have c: "fetched (makeWidget exampleHost \<lparr>preferDistricts = False\<rparr> ''small'' exampleUp
         exampleClock (Some (stringify exampleSnapshot)))
       = Some (getData exampleUp (getLookupCodes exampleHost))
     \<and> written (makeWidget exampleHost \<lparr>preferDistricts = False\<rparr> ''small'' exampleUp
         exampleClock (Some (stringify exampleSnapshot)))
       = Some \<lparr>updated = exampleClock 0, data = Some (getData exampleUp (getLookupCodes exampleHost))\<rparr>
     \<and> cacheFile (makeWidget exampleHost \<lparr>preferDistricts = False\<rparr> ''small'' exampleUp
         exampleClock (Some (stringify exampleSnapshot)))
       = writeCache \<lparr>updated = exampleClock 0,
                     data = Some (getData exampleUp (getLookupCodes exampleHost))\<rparr>
           (Some (stringify exampleSnapshot))"
    by presburger
  from a b c none empty up show ?thesis
    by (simp add: exampleHost_codes exampleClock_def writeCache_def)
qed

lemma makeWidget_sentinel:
  assumes "getLookupCodes host \<noteq> []" and "getData net (getLookupCodes host) = []"
  shows "makeWidget host prefs size0 net clock None =
     \<lparr>cacheFile = None, fetched = Some [], written = None, age = Some (clock 1 - clock 0),
      widget = Some (NoData (clock 0) (updateWarning (clock 1 - clock 0))
                 (l8n_string (Localization strings (language host)) ''msgNoData'' []))\<rparr>"
  using assms by (simp add: makeWidget_def Let_def readCache_def)

text \<open>
  C10, as the claim states it: without a cache file and with a failed fetch the age
  would be zero and the state without data always Fresh. The script reads the
  clock a second time for the age: with readings 7 milliseconds apart the age is 7,
  and with readings more than 24 hours apart the warning appears next to the
  message for missing data.
\<close>

theorem sentinel_age_counterexample:
  "age (makeWidget exampleHost \<lparr>preferDistricts = False\<rparr> ''small'' exampleOffline
         exampleClock None) = Some 7
   \<and> widget (makeWidget exampleHost \<lparr>preferDistricts = False\<rparr> ''small'' exampleOffline
         (\<lambda>n. if n = 0 then 0 else 24 * hours + 1) None) =
       Some (NoData 0 Warn ''Unable to retrieve incidence data.'')"
  by (simp add: makeWidget_sentinel exampleHost_codes getData_offline exampleCodes_nonempty
      updateWarning_def hours_def exampleClock_def exampleHost_language msgNoData_en)

text \<open>
  C10, amended. Without a cache file and with a failed fetch, the object standing
  in for the cache carries the clock reading taken when the file is found missing;
  the age is the next clock reading minus that one, zero when the two readings are
  equal, and the state without data is Fresh whenever the age is at most 24 hours.
  Without valid codes the run ends before the cache is read: no age, no warning.
\<close>

theorem sentinel_age:
  "(getLookupCodes host = [] \<longrightarrow>
      age (makeWidget host prefs size0 net clock None) = None
      \<and> widget (makeWidget host prefs size0 net clock None) =
          Some (CodeError (l8n_string (Localization strings (language host)) ''msgCodeError'' [])))
   \<and> (getLookupCodes host \<noteq> [] \<and> getData net (getLookupCodes host) = [] \<longrightarrow>
      age (makeWidget host prefs size0 net clock None) = Some (clock 1 - clock 0)
      \<and> widget (makeWidget host prefs size0 net clock None) =
          Some (NoData (clock 0) (updateWarning (clock 1 - clock 0))
                 (l8n_string (Localization strings (language host)) ''msgNoData'' []))
      \<and> (clock 1 = clock 0 \<longrightarrow> age (makeWidget host prefs size0 net clock None) = Some 0)
      \<and> (clock 1 - clock 0 \<le> 24 * hours \<longrightarrow>
           widget (makeWidget host prefs size0 net clock None) =
             Some (NoData (clock 0) Fresh
                    (l8n_string (Localization strings (language host)) ''msgNoData'' []))))"
  by (simp add: makeWidget_no_codes makeWidget_sentinel updateWarning_def)

theorem sentinel_age_witness:
  "getLookupCodes exampleHost \<noteq> [] \<and> getData exampleOffline (getLookupCodes exampleHost) = []
   \<and> exampleClock 1 - exampleClock 0 \<le> 24 * hours
   \<and> age (makeWidget exampleHost \<lparr>preferDistricts = False\<rparr> ''small'' exampleOffline
         exampleClock None) = Some 7
   \<and> widget (makeWidget exampleHost \<lparr>preferDistricts = False\<rparr> ''small'' exampleOffline
         exampleClock None) =
       Some (NoData 1604400000000 Fresh ''Unable to retrieve incidence data.'')"
proof -
  have c: "getLookupCodes exampleHost \<noteq> [] \<and> getData exampleOffline (getLookupCodes exampleHost) = []"
    by (simp add: exampleHost_codes getData_offline exampleCodes_nonempty)
  have h: "exampleClock 1 - exampleClock 0 \<le> 24 * hours"
    by (simp add: exampleClock_def hours_def)
  from c h
    sentinel_age [where host = exampleHost and net = exampleOffline
      and prefs = "\<lparr>preferDistricts = False\<rparr>" and ?size0.0 = "''small''"
      and clock = exampleClock]
  have "age (makeWidget exampleHost \<lparr>preferDistricts = False\<rparr> ''small'' exampleOffline
         exampleClock None) = Some (exampleClock 1 - exampleClock 0)
   \<and> widget (makeWidget exampleHost \<lparr>preferDistricts = False\<rparr> ''small'' exampleOffline
         exampleClock None) =
       Some (NoData (exampleClock 0) Fresh
              (l8n_string (Localization strings (language exampleHost)) ''msgNoData'' []))"
    by blast
  then show ?thesis using c h
    by (simp add: exampleHost_language msgNoData_en exampleClock_def)
qed

subsection \<open>Records and lines\<close>


lemma getData_nonempty_codes:
  assumes "getData net codes \<noteq> []"
  shows "map code (getData net codes) = map text0 codes"
proof -
  have "\<not> (\<exists>k<length codes. \<not> succeeded (net (0 + k) (lookupURL (codes ! k))))"
    using assms getData_loop_fail [of codes net 0 "[]"] by (auto simp: getData_def)
  then have "\<forall>k<length codes. succeeded (net (0 + k) (lookupURL (codes ! k)))" by blast
  from getData_loop_all [OF this, of "[]"] show ?thesis
    by (simp add: getData_def map_code_enumerate del: map_map)
qed





lemma msgCode_en:
  "placeholder (Localization strings ''en'') (Some ''50937'') = ''Code 50937''"
  unfolding l8n_en
  by (simp add: placeholder_def l8n_string_def strings_def tableOf_def matchHole_def
      matchDefault_def notBrace_def notColonBrace_def)

lemma stale_read:
  "readCache now (Some (stringify staleSnapshot)) = Some staleSnapshot"
proof -
  have "wellFormed staleSnapshot"
    by (simp add: wellFormed_def wellFormedInfo_def staleSnapshot_def)
  then show ?thesis by (simp add: readCache_def parse_stringify stored_wellFormed)
qed

lemma placeholder_undefined:
  "placeholder (Localization strings ''en'') None = ''Code ?''"
  "placeholder (Localization strings ''de'') None = ''PLZ %{code}''"
  by (simp_all add: Localization_def strings_def tableOf_def assign_def placeholder_def
      l8n_string_def matchHole_def matchDefault_def notBrace_def notColonBrace_def)

text \<open>
  The name shown for a record: the district when districts are preferred,
  otherwise the place or else the district; without a name, the placeholder made
  from \<open>codes[idx]\<close>. That code is the code of the record when the records were
  fetched in the current run.
\<close>

lemma location_cases:
  "location prefs l8n codes idx d =
     (if preferDistricts prefs then
        (if truthy (district d) then fieldString (district d)
         else placeholder l8n (codeAt codes idx))
      else if truthy (place d) then fieldString (place d)
      else if truthy (district d) then fieldString (district d)
      else placeholder l8n (codeAt codes idx))"
  by (cases "place d"; cases "district d") (simp_all add: location_def js_or_def)

lemma codeAt_fetched:
  assumes "getData net codes \<noteq> []" and "idx < length (getData net codes)"
  shows "codeAt codes idx = Some (code (map storedInfo (getData net codes) ! idx))"
proof -
  from assms have m: "map code (getData net codes) = map text0 codes"
    by (simp add: getData_nonempty_codes)
  then have len: "length (getData net codes) = length codes"
    by (metis length_map)
  have "code (getData net codes ! idx) = text0 (codes ! idx)"
    using assms m len by (metis nth_map)
  with assms len show ?thesis
    by (simp add: codeAt_def storedInfo_def)
qed

text \<open>
  C9. Without a name, the placeholder should be built from the key the record
  carries. \<open>makeWidget\<close> builds it from \<open>codes[idx]\<close>, the code at the position of
  the record among the codes of the current run. With the snapshot of an earlier
  run for 99999 in the cache, a parameter that now asks for 50937 and 51063, and
  no connection, the line of the record of 99999, which links to the lookup of
  99999, is labelled with the code 50937; and a record beyond the codes of the
  run gets no code at all.
\<close>

theorem placeholder_from_position:
  "map code (the (data staleSnapshot)) = [''99999'']
   \<and> widget (makeWidget exampleHost \<lparr>preferDistricts = False\<rparr> ''small'' exampleOffline
         exampleClock (Some (stringify staleSnapshot))) =
       Some (Listing 1604400000000 Fresh
               [\<lparr>label = ''Code 50937'',
                 link = Val ''https://covid.9digits.de/lockdown/99999'',
                 cell = UnknownValue\<rparr>] [])
   \<and> location \<lparr>preferDistricts = False\<rparr> (Localization strings ''en'') exampleCodes 2
         (hd (the (data staleSnapshot))) = ''Code ?''
   \<and> location \<lparr>preferDistricts = False\<rparr> (Localization strings ''de'') exampleCodes 2
         (hd (the (data staleSnapshot))) = ''PLZ %{code}''"
proof -
  have "widget (makeWidget exampleHost \<lparr>preferDistricts = False\<rparr> ''small'' exampleOffline
         exampleClock (Some (stringify staleSnapshot))) =
       Some (Listing 1604400000000 Fresh
               [\<lparr>label = placeholder (Localization strings ''en'') (Some ''50937''),
                 link = Val ''https://covid.9digits.de/lockdown/99999'',
                 cell = UnknownValue\<rparr>] [])"
    by (simp add: makeWidget_def Let_def exampleHost_codes exampleHost_language
        exampleCodes_nonempty getData_offline stale_read)
       (simp add: staleSnapshot_def addLine_def location_def js_or_def codeAt_def cellOf_def
        exampleCodes_def exampleClock_def updateWarning_def hours_def)
  moreover have "codeAt exampleCodes 2 = None"
    by (simp add: codeAt_def exampleCodes_def)
  ultimately show ?thesis
    by (simp add: msgCode_en location_cases placeholder_undefined)
       (simp add: staleSnapshot_def)
qed

end
